theory Spec2Isabelle
  imports Main "HOL-Library.Word"
begin

unbundle bit_operations_syntax

section \<open>Errors raised by the streaming code\<close>

text \<open>
  Every exception the modelled code can raise is a value. \<open>value_error\<close> is
  \<^verbatim>\<open>uhd::value_error\<close> with its message, \<open>thread_interrupted\<close> is
  \<^verbatim>\<open>boost::thread_interrupted\<close>, \<open>key_error\<close> is what the conversion registry raises
  for an unknown format, \<open>runtime_error\<close> what a failed cast of a stream argument
  raises. \<open>undefined_behaviour\<close> stands for an unchecked
  \<^verbatim>\<open>operator[]\<close> outside its vector, which C++ leaves undefined.
\<close>

datatype error =
    value_error string
  | key_error string
  | runtime_error string
  | thread_interrupted
  | undefined_behaviour

section \<open>Flow control monitor for a single tx channel\<close>

text \<open>
  \<^verbatim>\<open>class flow_control_monitor\<close> of io_impl.cpp: \<^verbatim>\<open>seq_type\<close> is
  \<^verbatim>\<open>boost::uint32_t\<close>, so the counters are 32-bit words and \<open>+\<close>, \<open>-\<close> wrap.
\<close>

type_synonym seq_type = "32 word"

text \<open>\<^verbatim>\<open>size_t\<close> where the code computes sizes and they may wrap: 64 bits.\<close>

type_synonym size_t = "64 word"

record flow_control_monitor =
  last_seq_out :: seq_type
  last_seq_ack :: seq_type
  max_seqs_out :: seq_type

definition clear :: "flow_control_monitor \<Rightarrow> flow_control_monitor" where
  "clear m = m\<lparr>last_seq_out := 0, last_seq_ack := 0\<rparr>"

text \<open>The constructor stores the window and calls \<open>clear\<close>.\<close>

definition make_flow_control_monitor :: "seq_type \<Rightarrow> flow_control_monitor" where
  "make_flow_control_monitor max_seqs =
     clear \<lparr>last_seq_out = 0, last_seq_ack = 0, max_seqs_out = max_seqs\<rparr>"

text \<open>\<^verbatim>\<open>return _last_seq_out++;\<close> The old value is returned, the counter wraps at \<open>2^32\<close>.\<close>

definition get_curr_seq_out :: "flow_control_monitor \<Rightarrow> seq_type \<times> flow_control_monitor" where
  "get_curr_seq_out m = (last_seq_out m, m\<lparr>last_seq_out := last_seq_out m + 1\<rparr>)"

text \<open>\<^verbatim>\<open>return seq_type(_last_seq_out -_last_seq_ack) < _max_seqs_out;\<close>\<close>

definition ready :: "flow_control_monitor \<Rightarrow> bool" where
  "ready m = (last_seq_out m - last_seq_ack m < max_seqs_out m)"

text \<open>
  \<^verbatim>\<open>update_fc_condition\<close>: under the mutex \<^verbatim>\<open>_last_seq_ack = seq\<close>, then one waiter is
  notified. The notification is an event of the waiter's schedule (below).
\<close>

definition update_fc_condition :: "flow_control_monitor \<Rightarrow> seq_type \<Rightarrow> flow_control_monitor" where
  "update_fc_condition m seq = m\<lparr>last_seq_ack := seq\<rparr>"

text \<open>
  A sequence of calls made on one monitor: \<open>Next_sequence\<close> is \<^verbatim>\<open>get_curr_seq_out()\<close>
  (its result dropped), \<open>Acknowledge seq\<close> is \<^verbatim>\<open>update_fc_condition(seq)\<close>.
\<close>

datatype fc_call = Next_sequence | Acknowledge seq_type

fun do_call :: "flow_control_monitor \<Rightarrow> fc_call \<Rightarrow> flow_control_monitor" where
  "do_call m Next_sequence = snd (get_curr_seq_out m)"
| "do_call m (Acknowledge seq) = update_fc_condition m seq"

definition run_calls :: "flow_control_monitor \<Rightarrow> fc_call list \<Rightarrow> flow_control_monitor" where
  "run_calls m calls = foldl do_call m calls"

subsection \<open>Waiting on the flow control condition\<close>

text \<open>
  \<^verbatim>\<open>check_fc_condition\<close> blocks in \<^verbatim>\<open>boost::condition::timed_wait(lock, duration, pred)\<close>.
  What happens while the caller is blocked is decided by the other threads, so it is an
  input of the model: the list of events that occur before the timeout expires, in the
  order the mutex serialises them.
  \<^item> \<open>Other_update seq\<close>: another thread ran \<^verbatim>\<open>update_fc_condition(seq)\<close>;
  \<^item> \<open>Wakeup\<close>: the waiter wakes (notified or spuriously) and holds the mutex again;
  \<^item> \<open>Interruption_request\<close>: \<^verbatim>\<open>boost::thread::interrupt()\<close> was called on the waiter.
  The end of the list is the expiry of the timeout.
\<close>

datatype thread_event = Other_update seq_type | Wakeup | Interruption_request

text \<open>
  The library primitive, after its documented contract
  \<^verbatim>\<open>while (!pred()) { if (!timed_wait(lock, abs_time)) return pred(); } return true;\<close>
  The wait is an interruption point: with interruption enabled a pending request makes
  it throw \<^verbatim>\<open>thread_interrupted\<close>; with interruption disabled the request stays pending
  and the wait goes on. The result carries the monitor as the waiter leaves it and the
  events that had not yet occurred when it returned.
\<close>

fun timed_wait_loop ::
  "bool \<Rightarrow> (flow_control_monitor \<Rightarrow> bool) \<Rightarrow> flow_control_monitor \<Rightarrow> thread_event list \<Rightarrow>
     error + (bool \<times> flow_control_monitor \<times> thread_event list)" where
  "timed_wait_loop interruptible pred m [] = Inr (pred m, m, [])"
| "timed_wait_loop interruptible pred m (Other_update seq # evs) =
     timed_wait_loop interruptible pred (update_fc_condition m seq) evs"
| "timed_wait_loop interruptible pred m (Wakeup # evs) =
     (if pred m then Inr (True, m, evs) else timed_wait_loop interruptible pred m evs)"
| "timed_wait_loop interruptible pred m (Interruption_request # evs) =
     (if interruptible then Inl thread_interrupted
      else timed_wait_loop interruptible pred m evs)"

definition timed_wait ::
  "bool \<Rightarrow> (flow_control_monitor \<Rightarrow> bool) \<Rightarrow> flow_control_monitor \<Rightarrow> thread_event list \<Rightarrow>
     error + (bool \<times> flow_control_monitor \<times> thread_event list)" where
  "timed_wait interruptible pred m evs =
     (if pred m then Inr (True, m, evs) else timed_wait_loop interruptible pred m evs)"

text \<open>
  \<^verbatim>\<open>if (this->ready()) return true;\<close>
  \<^verbatim>\<open>boost::this_thread::disable_interruption di;\<close>
  \<^verbatim>\<open>return _fc_cond.timed_wait(lock, to_time_dur(timeout), _ready_fcn);\<close>
  The timeout itself is the length of the schedule; \<open>di\<close> makes the wait
  uninterruptible.
\<close>

definition check_fc_condition ::
  "flow_control_monitor \<Rightarrow> thread_event list \<Rightarrow>
     error + (bool \<times> flow_control_monitor \<times> thread_event list)" where
  "check_fc_condition m evs =
     (if ready m then Inr (True, m, evs) else timed_wait False ready m evs)"

text \<open>A schedule in which no other thread acknowledges anything.\<close>

fun no_updates :: "thread_event list \<Rightarrow> bool" where
  "no_updates [] = True"
| "no_updates (Other_update seq # evs) = False"
| "no_updates (e # evs) = no_updates evs"

text \<open>The monitor of the window-4 scenario after four sequence numbers were taken.\<close>

definition four_sent :: flow_control_monitor where
  "four_sent = run_calls (make_flow_control_monitor 4)
     [Next_sequence, Next_sequence, Next_sequence, Next_sequence]"

text \<open>What a call of \<open>check_fc_condition\<close> hands back: nothing when it threw.\<close>

fun returned ::
  "error + (bool \<times> flow_control_monitor \<times> thread_event list) \<Rightarrow>
     (bool \<times> flow_control_monitor) option" where
  "returned (Inl e) = None"
| "returned (Inr (b, m, rest)) = Some (b, m)"

section \<open>The async message queue\<close>

text \<open>
  Modelled from the spec: \<^verbatim>\<open>uhd::transport::bounded_buffer\<close> (bounded_buffer.hpp) is
  not among the sources; io_impl.cpp only constructs it
  (\<^verbatim>\<open>async_msg_fifo(100/*messages deep*/)\<close>) and calls
  \<^verbatim>\<open>push_with_pop_on_full\<close>. The spec (4.4): a bounded FIFO of fixed capacity, in
  insertion order; a push always succeeds and, if the queue is full, removes the single
  oldest entry first. The list holds the oldest entry first.
\<close>

record 'a bounded_buffer =
  capacity :: nat
  buffer :: "'a list"

definition make_bounded_buffer :: "nat \<Rightarrow> 'a bounded_buffer" where
  "make_bounded_buffer n = \<lparr>capacity = n, buffer = []\<rparr>"

definition full :: "'a bounded_buffer \<Rightarrow> bool" where
  "full q = (capacity q \<le> length (buffer q))"

definition push_with_pop_on_full :: "'a bounded_buffer \<Rightarrow> 'a \<Rightarrow> 'a bounded_buffer" where
  "push_with_pop_on_full q elem =
     (if full q then q\<lparr>buffer := tl (buffer q) @ [elem]\<rparr>
      else q\<lparr>buffer := buffer q @ [elem]\<rparr>)"

section \<open>The io implementation\<close>

subsection \<open>What the code takes from outside this file\<close>

text \<open>
  The fields \<^verbatim>\<open>recv_pirate_loop\<close> reads of \<^verbatim>\<open>vrt::if_packet_info_t\<close>; all that is
  used of the packet type is whether it is \<^verbatim>\<open>PACKET_TYPE_DATA\<close>.
\<close>

datatype packet_type_t = PACKET_TYPE_DATA | PACKET_TYPE_EXTENSION | PACKET_TYPE_CONTEXT

record if_packet_info_t =
  packet_type :: packet_type_t
  num_packet_words32 :: nat
  num_header_words32 :: nat
  sid :: "32 word"
  has_tsi :: bool
  tsi :: "32 word"
  has_tsf :: bool
  tsf :: "64 word"

text \<open>
  A buffer handed out by a transport: its size in bytes and the 32-bit words seen through
  \<^verbatim>\<open>buff->cast<boost::uint32_t *>()\<close>. The cast is an unchecked pointer, so the
  words are a function of the word offset.
\<close>

record managed_buffer =
  buff_size :: nat
  buff_words :: "nat \<Rightarrow> 32 word"

text \<open>
  Functions and constants that io_impl.cpp uses and other files define; they are
  parameters of the model.
  \<^item> \<open>if_hdr_unpack_be words n\<close>: \<^verbatim>\<open>vrt::if_hdr_unpack_be\<close> on a packet of \<open>n\<close>
    words; \<open>Inl what\<close> when it throws;
  \<^item> \<open>get_context_code\<close>: \<^verbatim>\<open>sph::get_context_code(vrt_hdr, if_packet_info)\<close>;
  \<^item> \<open>ntohx\<close>, \<open>htonx\<close>: the byte order conversions of byteswap.hpp;
  \<^item> the stream id base and the event code bits of \<^verbatim>\<open>async_metadata_t\<close>;
  \<^item> \<open>max_if_hdr_words32\<close>, \<open>sizeof_tlr\<close>, \<open>sizeof_cid\<close>: the header sizes;
  \<^item> \<open>get_bytes_per_item\<close>: \<^verbatim>\<open>convert::get_bytes_per_item\<close>, \<open>Inl\<close> when it throws;
  \<^item> \<open>set_converter\<close>: the error \<^verbatim>\<open>my_streamer->set_converter(id)\<close> throws for the
    pair (input format, output format), if any;
  \<^item> \<open>cast_scalar\<close>: \<^verbatim>\<open>unsigned(args.args.cast<double>("scalar", 0x400))\<close>,
    \<open>Inl\<close> when the cast throws.
\<close>

record environment =
  if_hdr_unpack_be :: "(nat \<Rightarrow> 32 word) \<Rightarrow> nat \<Rightarrow> string + if_packet_info_t"
  get_context_code :: "(nat \<Rightarrow> 32 word) \<Rightarrow> if_packet_info_t \<Rightarrow> 32 word"
  ntohx :: "32 word \<Rightarrow> 32 word"
  htonx :: "32 word \<Rightarrow> 32 word"
  USRP2_TX_ASYNC_SID_BASE :: "32 word"
  EVENT_CODE_UNDERFLOW :: "32 word"
  EVENT_CODE_UNDERFLOW_IN_PACKET :: "32 word"
  EVENT_CODE_SEQ_ERROR :: "32 word"
  EVENT_CODE_SEQ_ERROR_IN_BURST :: "32 word"
  EVENT_CODE_TIME_ERROR :: "32 word"
  max_if_hdr_words32 :: size_t
  sizeof_tlr :: size_t
  sizeof_cid :: size_t
  get_bytes_per_item :: "string \<Rightarrow> error + size_t"
  set_converter :: "string \<times> string \<Rightarrow> error option"
  cast_scalar :: "(string \<times> string) list \<Rightarrow> error + nat"

subsection \<open>State\<close>

text \<open>
  \<^verbatim>\<open>async_metadata_t\<close> as the loop fills it. The time is kept as the two header
  fields; the conversion by the tick rate (a double) is left out.
\<close>

record async_metadata_t =
  channel :: nat
  has_time_spec :: bool
  time_spec :: "32 word \<times> 64 word"
  event_code :: "32 word"

text \<open>
  \<^verbatim>\<open>struct umtrx_impl::io_impl\<close>: the transports are handles (numbers), what a
  transport answers is an input of the call that asks it.
\<close>

record io_impl =
  tx_xports :: "nat list"
  fc_mons :: "flow_control_monitor list"
  async_msg_fifo :: "async_metadata_t bounded_buffer"

text \<open>\<^verbatim>\<open>io_impl(void): async_msg_fifo(100/*messages deep*/)\<close>\<close>

definition make_io_impl :: io_impl where
  "make_io_impl = \<lparr>tx_xports = [], fc_mons = [], async_msg_fifo = make_bounded_buffer 100\<rparr>"

subsection \<open>Acquiring a send buffer\<close>

text \<open>
  \<^verbatim>\<open>get_send_buff(chan, timeout)\<close>. \<open>evs\<close> is the schedule of the flow control
  wait, \<open>xport_buff\<close> what \<^verbatim>\<open>tx_xports[chan]->get_send_buff(timeout)\<close> returns
  (\<open>None\<close> for the null pointer). The result is the buffer handed to the caller and
  the state left behind.
\<close>

definition get_send_buff ::
  "environment \<Rightarrow> io_impl \<Rightarrow> nat \<Rightarrow> thread_event list \<Rightarrow> managed_buffer option \<Rightarrow>
     error + (managed_buffer option \<times> io_impl)" where
  "get_send_buff env io_st chan evs xport_buff =
     (if length (fc_mons io_st) \<le> chan then Inl undefined_behaviour
      else case check_fc_condition (fc_mons io_st ! chan) evs of
        Inl e \<Rightarrow> Inl e
      | Inr (ok, fc_mon, rest) \<Rightarrow>
          let io1 = io_st\<lparr>fc_mons := (fc_mons io_st)[chan := fc_mon]\<rparr> in
          if \<not> ok then Inr (None, io1)
          else if length (tx_xports io1) \<le> chan then Inl undefined_behaviour
          else case xport_buff of
            None \<Rightarrow> Inr (None, io1)
          | Some buff \<Rightarrow>
              let (seq, fc_mon') = get_curr_seq_out fc_mon in
              Inr (Some (buff\<lparr>buff_words := (buff_words buff)(0 := htonx env seq)\<rparr>),
                   io1\<lparr>fc_mons := (fc_mons io1)[chan := fc_mon']\<rparr>))"

subsection \<open>The receive pirate loop\<close>




section \<open>Streamers\<close>

subsection \<open>The device\<close>

text \<open>
  The DSP cores are objects of other files; a core is the list of the calls it has
  received, oldest first.
\<close>

datatype rx_dsp_call = Set_nsamps_per_packet size_t | Rx_clear | Set_format string nat

datatype tx_dsp_call = Tx_clear | Set_underflow_policy string

text \<open>
  One entry of \<^verbatim>\<open>_mbc\<close>, with what the streamer code touches. A streamer slot holds the
  weak pointer to a streamer (its handle) or nothing. The frame sizes are those of
  \<^verbatim>\<open>rx_dsp_xports[0]\<close> and \<^verbatim>\<open>tx_dsp_xports[0]\<close>.
\<close>

record mb_container =
  rx_dsps :: "rx_dsp_call list list"
  tx_dsps :: "tx_dsp_call list list"
  rx_streamers :: "nat option list"
  tx_streamers :: "nat option list"
  rx_chan_occ :: nat
  tx_chan_occ :: nat
  recv_frame_size :: size_t
  send_frame_size :: size_t

text \<open>
  \<^verbatim>\<open>_mbc\<close> is a \<^verbatim>\<open>uhd::dict\<close>: \<^verbatim>\<open>keys()\<close> lists the boards in the order they were
  registered, each key once, so the dictionary is the list of its entries in that order.
  Channel numbers and occupancies are indices of small vectors and are natural numbers.
\<close>

record umtrx_impl =
  mbc :: "mb_container list"
  the_io_impl :: io_impl

text \<open>\<^verbatim>\<open>uhd::stream_args_t\<close>; \<open>args\<close> is the \<^verbatim>\<open>device_addr_t\<close> dictionary.\<close>

record stream_args_t =
  cpu_format :: string
  otw_format :: string
  args :: "(string \<times> string) list"
  channels :: "nat list"

definition has_key :: "(string \<times> string) list \<Rightarrow> string \<Rightarrow> bool" where
  "has_key d k = (map_of d k \<noteq> None)"


record send_packet_streamer =
  tx_samps_per_packet :: size_t
  tx_converter :: "(string \<times> string) option"
  tx_xport_chans :: "nat option list"

text \<open>\<^verbatim>\<open>static const size_t vrt_send_header_offset_words32 = 1;\<close>\<close>

definition vrt_send_header_offset_words32 :: size_t where
  "vrt_send_header_offset_words32 = 1"

subsection \<open>Receive streamer\<close>




subsection \<open>Transmit streamer\<close>

text \<open>
  The \<^verbatim>\<open>BOOST_FOREACH\<close> for one requested channel (lines 509-527). \<open>abs_chan\<close> is the
  source's \<^verbatim>\<open>abs\<close>, \<open>fcs\<close> are the flow control monitors of the io implementation.
  The DSP vector is indexed only to clear the DSP or to set its underflow policy, the
  monitors only to clear one.
\<close>

fun tx_bind_chan ::
  "stream_args_t \<Rightarrow> nat \<Rightarrow> nat \<Rightarrow> nat \<Rightarrow> nat \<Rightarrow> nat \<Rightarrow>
     mb_container list \<Rightarrow> flow_control_monitor list \<Rightarrow> send_packet_streamer \<Rightarrow>
     error option \<times> mb_container list \<times> flow_control_monitor list \<times> send_packet_streamer" where
  "tx_bind_chan a my_streamer chan_i chan abs_chan num_chan_so_far [] fcs st =
     (None, [], fcs, st)"
| "tx_bind_chan a my_streamer chan_i chan abs_chan num_chan_so_far (mb # mbs) fcs st =
     (let num_chan_so_far' = num_chan_so_far + tx_chan_occ mb in
      if chan < num_chan_so_far' then
        let dsp = chan + tx_chan_occ mb - num_chan_so_far' in
        if ((\<not> has_key (args a) ''noclear'' \<or> has_key (args a) ''underflow_policy'')
              \<and> length (tx_dsps mb) \<le> dsp)
           \<or> (\<not> has_key (args a) ''noclear'' \<and> length fcs \<le> abs_chan + dsp)
           \<or> length (tx_streamers mb) \<le> dsp
        then (Some undefined_behaviour, mb # mbs, fcs, st)
        else
          (None,
           mb\<lparr>tx_dsps := (tx_dsps mb)[dsp := tx_dsps mb ! dsp
                   @ (if \<not> has_key (args a) ''noclear'' then [Tx_clear] else [])
                   @ (if has_key (args a) ''underflow_policy''
                      then [Set_underflow_policy (the (map_of (args a) ''underflow_policy''))]
                      else [])],
              tx_streamers := (tx_streamers mb)[dsp := Some my_streamer]\<rparr> # mbs,
           (if \<not> has_key (args a) ''noclear''
            then fcs[abs_chan + dsp := clear (fcs ! (abs_chan + dsp))] else fcs),
           st\<lparr>tx_xport_chans := (tx_xport_chans st)[chan_i := Some (abs_chan + dsp)]\<rparr>)
      else
        let (e, mbs', fcs', st') =
          tx_bind_chan a my_streamer chan_i chan (abs_chan + 2) num_chan_so_far' mbs fcs st
        in (e, mb # mbs', fcs', st'))"

text \<open>The \<^verbatim>\<open>for\<close> loop over \<^verbatim>\<open>args.channels\<close> (lines 507-528).\<close>

fun tx_bind_channels ::
  "stream_args_t \<Rightarrow> nat \<Rightarrow> nat \<Rightarrow> nat list \<Rightarrow>
     mb_container list \<Rightarrow> flow_control_monitor list \<Rightarrow> send_packet_streamer \<Rightarrow>
     error option \<times> mb_container list \<times> flow_control_monitor list \<times> send_packet_streamer" where
  "tx_bind_channels a my_streamer chan_i [] mbs fcs st = (None, mbs, fcs, st)"
| "tx_bind_channels a my_streamer chan_i (chan # chans) mbs fcs st =
     (case tx_bind_chan a my_streamer chan_i chan 0 0 mbs fcs st of
        (Some e, mbs', fcs', st') \<Rightarrow> (Some e, mbs', fcs', st')
      | (None, mbs', fcs', st') \<Rightarrow>
          tx_bind_channels a my_streamer (chan_i + 1) chans mbs' fcs' st')"

text \<open>
  \<^verbatim>\<open>get_tx_stream\<close>: the streamer or the error thrown, and the device as the call
  leaves it. \<^verbatim>\<open>update_rates()\<close> is left out.
\<close>

definition get_tx_stream ::
  "environment \<Rightarrow> umtrx_impl \<Rightarrow> nat \<Rightarrow> stream_args_t \<Rightarrow>
     (error + send_packet_streamer) \<times> umtrx_impl" where
  "get_tx_stream env dev my_streamer args0 =
     (let a = args0\<lparr>otw_format := (if otw_format args0 = [] then ''sc16'' else otw_format args0),
                     channels := (if channels args0 = [] then [0] else channels args0)\<rparr>
      in if otw_format a \<noteq> ''sc16''
         then (Inl (value_error (''USRP TX cannot handle requested wire format: '' @ otw_format a)),
               dev)
         else
           let hdr_size = 0 + max_if_hdr_words32 env * 4 + vrt_send_header_offset_words32 * 4
                            - sizeof_cid env
           in case mbc dev of
                [] \<Rightarrow> (Inl undefined_behaviour, dev)
              | front # others \<Rightarrow>
                  let bpp = send_frame_size front - hdr_size in
                  (case get_bytes_per_item env (otw_format a) of
                     Inl e \<Rightarrow> (Inl e, dev)
                   | Inr item_size \<Rightarrow>
                       if item_size = 0 then (Inl undefined_behaviour, dev)
                       else
                         let spp = bpp div item_size;
                             st0 = \<lparr>tx_samps_per_packet = spp, tx_converter = None,
                                    tx_xport_chans = replicate (length (channels a)) None\<rparr>;
                             conv = (cpu_format a, otw_format a @ ''_item32_be'')
                         in (case set_converter env conv of
                               Some e \<Rightarrow> (Inl e, dev)
                             | None \<Rightarrow>
                                 (case tx_bind_channels a my_streamer 0 (channels a) (mbc dev)
                                         (fc_mons (the_io_impl dev))
                                         (st0\<lparr>tx_converter := Some conv\<rparr>) of
                                    (e, mbs', fcs', st') \<Rightarrow>
                                      ((case e of Some err \<Rightarrow> Inl err | None \<Rightarrow> Inr st'),
                                       dev\<lparr>mbc := mbs',
                                           the_io_impl := (the_io_impl dev)\<lparr>fc_mons := fcs'\<rparr>\<rparr>)))))"

subsection \<open>Boards as initialisation leaves them\<close>






section \<open>Concrete inputs\<close>

text \<open>
  An environment to run the model on concrete inputs: a big-endian host, a decoder for
  packets of a two-word header (word 0 is zero for a data packet, word 1 the stream id),
  the context code in the low byte of the first payload word, the event code bits
  and header sizes of UHD, four bytes per sc16 item.
\<close>

definition example_env :: environment where
  "example_env = \<lparr>
     if_hdr_unpack_be = (\<lambda>w n. if n < 2 then Inl ''bad vrt header''
        else Inr \<lparr>packet_type = (if w 0 = 0 then PACKET_TYPE_DATA else PACKET_TYPE_CONTEXT),
                  num_packet_words32 = n, num_header_words32 = 2, sid = w 1,
                  has_tsi = False, tsi = 0, has_tsf = False, tsf = 0\<rparr>),
     get_context_code = (\<lambda>w info. w (num_header_words32 info) AND 0xff),
     ntohx = (\<lambda>x. x),
     htonx = (\<lambda>x. x),
     USRP2_TX_ASYNC_SID_BASE = 2,
     EVENT_CODE_UNDERFLOW = 0x2,
     EVENT_CODE_UNDERFLOW_IN_PACKET = 0x10,
     EVENT_CODE_SEQ_ERROR = 0x4,
     EVENT_CODE_SEQ_ERROR_IN_BURST = 0x20,
     EVENT_CODE_TIME_ERROR = 0x8,
     max_if_hdr_words32 = 7,
     sizeof_tlr = 4,
     sizeof_cid = 8,
     get_bytes_per_item = (\<lambda>f. if f = ''sc16'' then Inr 4 else if f = ''sc8'' then Inr 2
                                else Inl (key_error f)),
     set_converter = (\<lambda>conv. None),
     cast_scalar = (\<lambda>d. Inr 0x400)\<rparr>"

text \<open>A status packet of 16 bytes: stream id, context code and the word after it.\<close>

definition status_packet :: "32 word \<Rightarrow> 32 word \<Rightarrow> 32 word \<Rightarrow> managed_buffer" where
  "status_packet stream_id code word1 =
     \<lparr>buff_size = 16, buff_words = (\<lambda>i. 0)(0 := 1, 1 := stream_id, 2 := code, 3 := word1)\<rparr>"

text \<open>A board with two receive and two transmit DSPs, all channels in use.\<close>

definition example_board :: mb_container where
  "example_board = \<lparr>rx_dsps = [[], []], tx_dsps = [[], []],
     rx_streamers = [None, None], tx_streamers = [None, None],
     rx_chan_occ = 2, tx_chan_occ = 2, recv_frame_size = 1472, send_frame_size = 1472\<rparr>"

text \<open>Two such boards after \<^verbatim>\<open>io_init\<close>, with flow control windows of 4.\<close>

definition two_boards :: umtrx_impl where
  "two_boards = \<lparr>mbc = [example_board, example_board],
     the_io_impl = make_io_impl\<lparr>tx_xports := [0, 1, 2, 3],
       fc_mons := replicate 4 (make_flow_control_monitor 4)\<rparr>\<rparr>"

text \<open>
  An io implementation with two transmit channels of window 4 and four sequence numbers
  out on each: on channel 0 nothing is acknowledged, on channel 1 the acknowledgement is
  2.
\<close>

definition busy_io :: io_impl where
  "busy_io = make_io_impl\<lparr>tx_xports := [0, 1],
     fc_mons := [four_sent, update_fc_condition four_sent 2]\<rparr>"

definition example_args :: "string \<Rightarrow> nat list \<Rightarrow> stream_args_t" where
  "example_args fmt chans = \<lparr>cpu_format = ''fc32'', otw_format = fmt, args = [], channels = chans\<rparr>"

section \<open>Properties of the flow control monitor\<close>

lemma max_seqs_out_do_call: "max_seqs_out (do_call m c) = max_seqs_out m"
  by (cases c) (simp_all add: get_curr_seq_out_def update_fc_condition_def)

lemma max_seqs_out_foldl: "max_seqs_out (foldl do_call m calls) = max_seqs_out m"
  by (induction calls arbitrary: m) (simp_all add: max_seqs_out_do_call)

lemma ready_iff_uint:
  "ready m \<longleftrightarrow> (uint (last_seq_out m) - uint (last_seq_ack m)) mod 2 ^ 32 < uint (max_seqs_out m)"
  by (simp add: ready_def word_less_def uint_word_ariths)

lemma four_sent_eq:
  "four_sent = \<lparr>last_seq_out = 4, last_seq_ack = 0, max_seqs_out = 4\<rparr>"
  by (simp add: four_sent_def run_calls_def make_flow_control_monitor_def clear_def
      get_curr_seq_out_def)

text \<open>
  C1. After any sequence of \<open>Next_sequence\<close> and \<open>Acknowledge\<close> calls, from any
  monitor state (so also from counters next to \<open>2^32\<close>), \<open>ready\<close> holds exactly when
  the difference of the two counters, taken modulo \<open>2^32\<close>, is strictly below the window
  the monitor was made with. At the boundary: with the send counter at \<open>2^32 - 1\<close> and
  the acknowledgement at \<open>2^32 - 2\<close>, two more sequence numbers wrap the send counter to
  1, the difference is 3 and a window of 4 is ready, a window of 3 is not.
\<close>

theorem ready_iff_window:
  "(let s = run_calls m calls in
      max_seqs_out s = max_seqs_out m \<and>
      (ready s \<longleftrightarrow>
        (uint (last_seq_out s) - uint (last_seq_ack s)) mod 2 ^ 32 < uint (max_seqs_out m)))
   \<and> (let w = run_calls \<lparr>last_seq_out = 0xFFFFFFFF, last_seq_ack = 0xFFFFFFFE, max_seqs_out = 4\<rparr>
               [Next_sequence, Next_sequence] in
        last_seq_out w = 1 \<and> ready w \<and> \<not> ready (w\<lparr>max_seqs_out := 3\<rparr>))"
proof -
  have "max_seqs_out (run_calls m calls) = max_seqs_out m"
    by (simp add: run_calls_def max_seqs_out_foldl)
  moreover have "ready (run_calls m calls) \<longleftrightarrow>
      (uint (last_seq_out (run_calls m calls)) - uint (last_seq_ack (run_calls m calls))) mod 2 ^ 32
        < uint (max_seqs_out m)"
    using ready_iff_uint [of "run_calls m calls"]
    by (simp add: run_calls_def max_seqs_out_foldl)
  moreover have "let w = run_calls \<lparr>last_seq_out = 0xFFFFFFFF, last_seq_ack = 0xFFFFFFFE, max_seqs_out = 4\<rparr>
               [Next_sequence, Next_sequence] in
        last_seq_out w = 1 \<and> ready w \<and> \<not> ready (w\<lparr>max_seqs_out := 3\<rparr>)"
    by (simp add: run_calls_def get_curr_seq_out_def ready_def)
  ultimately show ?thesis by (simp add: Let_def)
qed

text \<open>
  C5. \<open>update_fc_condition\<close> stores the acknowledged number whatever the monitor held
  before and leaves the other fields alone; nothing compares it with the previous
  acknowledgement, so an older number overwrites a newer one (5, then 3, leaves 3).
\<close>

theorem acknowledge_last_value_wins:
  "last_seq_ack (update_fc_condition m seq) = seq
   \<and> last_seq_out (update_fc_condition m seq) = last_seq_out m
   \<and> max_seqs_out (update_fc_condition m seq) = max_seqs_out m
   \<and> last_seq_ack (update_fc_condition (update_fc_condition m 5) 3) = 3"
  by (simp add: update_fc_condition_def)

subsection \<open>The flow control wait\<close>

lemma wait_loop_no_updates:
  "\<not> pred m \<Longrightarrow> no_updates evs \<Longrightarrow> timed_wait_loop False pred m evs = Inr (False, m, [])"
  by (induction evs rule: no_updates.induct) simp_all

lemma wait_loop_returns:
  "\<exists>b m' pre rest. timed_wait_loop False pred m evs = Inr (b, m', rest)
      \<and> b = pred m' \<and> evs = pre @ rest \<and> (\<not> b \<longrightarrow> rest = [])"
proof (induction evs arbitrary: m)
  case Nil
  then show ?case by simp
next
  case (Cons e evs)
  show ?case
  proof (cases e)
    case (Other_update seq)
    from Cons [of "update_fc_condition m seq"] obtain b m' pre rest where
      "timed_wait_loop False pred (update_fc_condition m seq) evs = Inr (b, m', rest)"
      "b = pred m'" "evs = pre @ rest" "\<not> b \<longrightarrow> rest = []" by blast
    then have "timed_wait_loop False pred m (e # evs) = Inr (b, m', rest) \<and> b = pred m'
        \<and> e # evs = (e # pre) @ rest \<and> (\<not> b \<longrightarrow> rest = [])"
      using Other_update by simp
    then show ?thesis by blast
  next
    case Wakeup
    show ?thesis
    proof (cases "pred m")
      case True
      then have "timed_wait_loop False pred m (e # evs) = Inr (True, m, evs) \<and> True = pred m
        \<and> e # evs = [e] @ evs \<and> (\<not> True \<longrightarrow> evs = [])"
        using Wakeup by simp
      then show ?thesis by blast
    next
      case False
      from Cons [of m] obtain b m' pre rest where
        "timed_wait_loop False pred m evs = Inr (b, m', rest)"
        "b = pred m'" "evs = pre @ rest" "\<not> b \<longrightarrow> rest = []" by blast
      then have "timed_wait_loop False pred m (e # evs) = Inr (b, m', rest) \<and> b = pred m'
        \<and> e # evs = (e # pre) @ rest \<and> (\<not> b \<longrightarrow> rest = [])"
        using Wakeup False by simp
      then show ?thesis by blast
    qed
  next
    case Interruption_request
    from Cons [of m] obtain b m' pre rest where
      "timed_wait_loop False pred m evs = Inr (b, m', rest)"
      "b = pred m'" "evs = pre @ rest" "\<not> b \<longrightarrow> rest = []" by blast
    then have "timed_wait_loop False pred m (e # evs) = Inr (b, m', rest) \<and> b = pred m'
        \<and> e # evs = (e # pre) @ rest \<and> (\<not> b \<longrightarrow> rest = [])"
      using Interruption_request by simp
    then show ?thesis by blast
  qed
qed

lemma wait_loop_ignores_interrupts:
  "returned (timed_wait_loop False pred m (filter (\<lambda>e. e \<noteq> Interruption_request) evs))
     = returned (timed_wait_loop False pred m evs)"
proof (induction evs arbitrary: m)
  case Nil
  then show ?case by simp
next
  case (Cons e evs)
  then show ?case by (cases e) simp_all
qed

lemma wait_loop_append:
  "timed_wait_loop False pred m pre = Inr (False, m', []) \<Longrightarrow>
   timed_wait_loop False pred m (pre @ post) = timed_wait_loop False pred m' post"
proof (induction pre arbitrary: m)
  case Nil
  then show ?case by simp
next
  case (Cons e pre)
  then show ?case by (cases e) (simp_all split: if_splits)
qed

lemma check_returns:
  "\<exists>b m' pre rest. check_fc_condition m evs = Inr (b, m', rest)
      \<and> b = ready m' \<and> evs = pre @ rest \<and> (\<not> b \<longrightarrow> rest = [])"
proof (cases "ready m")
  case True
  then have "check_fc_condition m evs = Inr (True, m, evs) \<and> True = ready m \<and> evs = [] @ evs
     \<and> (\<not> True \<longrightarrow> evs = [])"
    by (simp add: check_fc_condition_def)
  then show ?thesis by blast
next
  case False
  then have "check_fc_condition m evs = timed_wait_loop False ready m evs"
    by (simp add: check_fc_condition_def timed_wait_def)
  then show ?thesis using wait_loop_returns [of ready m evs] by simp
qed

lemma check_append:
  assumes "check_fc_condition m pre = Inr (False, m', [])"
  shows "check_fc_condition m (pre @ post) = check_fc_condition m' post"
proof -
  have nr: "\<not> ready m" using assms by (auto simp: check_fc_condition_def split: if_splits)
  then have l: "timed_wait_loop False ready m pre = Inr (False, m', [])"
    using assms by (simp add: check_fc_condition_def timed_wait_def)
  have "\<not> ready m'" using wait_loop_returns [of ready m pre] l by auto
  then show ?thesis using nr wait_loop_append [OF l, of post]
    by (simp add: check_fc_condition_def timed_wait_def)
qed

text \<open>
  C9 (amended). \<open>check_fc_condition\<close>
  \<^item> returns true at once when \<open>ready\<close> holds at the call: the monitor is untouched and
    no event of the schedule is consumed;
  \<^item> always returns a boolean and never throws, whatever the schedule; the boolean is
    the value of \<open>ready\<close> on the monitor at the return, and it is false only when the
    whole schedule was consumed, that is at the timeout;
  \<^item> returns false when \<open>ready\<close> fails at the call and nothing is acknowledged during
    the wait;
  \<^item> re-checks \<open>ready\<close> at a wake: after a wait that stayed unready, an update followed
    by a wake returns true there if the update made the monitor ready, and goes on
    waiting otherwise;
  \<^item> ignores a cancellation request: with the requests removed from the schedule the
    result is the same. The request does not end the wait.
\<close>

theorem wait_ready_contract:
  "(ready m \<longrightarrow> check_fc_condition m evs = Inr (True, m, evs))
   \<and> (\<exists>b m' pre rest. check_fc_condition m evs = Inr (b, m', rest)
        \<and> b = ready m' \<and> evs = pre @ rest \<and> (\<not> b \<longrightarrow> rest = []))
   \<and> (\<not> ready m \<and> no_updates evs \<longrightarrow> check_fc_condition m evs = Inr (False, m, []))
   \<and> (check_fc_condition m pre = Inr (False, m', []) \<longrightarrow>
        check_fc_condition m (pre @ Other_update seq # Wakeup # post) =
          (if ready (update_fc_condition m' seq) then Inr (True, update_fc_condition m' seq, post)
           else check_fc_condition (update_fc_condition m' seq) post))
   \<and> returned (check_fc_condition m (filter (\<lambda>e. e \<noteq> Interruption_request) evs))
        = returned (check_fc_condition m evs)"
proof -
  have a: "ready m \<longrightarrow> check_fc_condition m evs = Inr (True, m, evs)"
    by (simp add: check_fc_condition_def)
  have c: "\<not> ready m \<and> no_updates evs \<longrightarrow> check_fc_condition m evs = Inr (False, m, [])"
    by (simp add: check_fc_condition_def timed_wait_def wait_loop_no_updates)
  have d: "check_fc_condition m pre = Inr (False, m', []) \<longrightarrow>
        check_fc_condition m (pre @ Other_update seq # Wakeup # post) =
          (if ready (update_fc_condition m' seq) then Inr (True, update_fc_condition m' seq, post)
           else check_fc_condition (update_fc_condition m' seq) post)"
  proof
    assume h: "check_fc_condition m pre = Inr (False, m', [])"
    have "\<not> ready m'" using check_returns [of m pre] h by auto
    then show "check_fc_condition m (pre @ Other_update seq # Wakeup # post) =
          (if ready (update_fc_condition m' seq) then Inr (True, update_fc_condition m' seq, post)
           else check_fc_condition (update_fc_condition m' seq) post)"
      using check_append [OF h, of "Other_update seq # Wakeup # post"]
      by (simp add: check_fc_condition_def timed_wait_def)
  qed
  have e: "returned (check_fc_condition m (filter (\<lambda>e. e \<noteq> Interruption_request) evs))
        = returned (check_fc_condition m evs)"
    by (simp add: check_fc_condition_def timed_wait_def wait_loop_ignores_interrupts)
  from a check_returns [of m evs] c d e show ?thesis by blast
qed


text \<open>
  The contract at concrete schedules: a ready monitor, a window of 4 with four numbers
  out that times out, and the same wait ended by an acknowledgement of 2.
\<close>

theorem wait_ready_contract_witness:
  "check_fc_condition (make_flow_control_monitor 4) [Wakeup] =
       Inr (True, make_flow_control_monitor 4, [Wakeup])
   \<and> check_fc_condition four_sent [Wakeup, Interruption_request] = Inr (False, four_sent, [])
   \<and> check_fc_condition four_sent [Wakeup, Interruption_request, Other_update 2, Wakeup, Wakeup] =
       Inr (True, update_fc_condition four_sent 2, [Wakeup])"
proof -
  have r: "ready (make_flow_control_monitor 4)"
    by (simp add: ready_def make_flow_control_monitor_def clear_def)
  have n: "\<not> ready four_sent" by (simp add: ready_def four_sent_eq)
  have q: "no_updates [Wakeup, Interruption_request]" by simp
  have u: "ready (update_fc_condition four_sent 2)"
    by (simp add: ready_def four_sent_eq update_fc_condition_def)
  from wait_ready_contract [of "make_flow_control_monitor 4" "[Wakeup]"] r
  have 1: "check_fc_condition (make_flow_control_monitor 4) [Wakeup] =
       Inr (True, make_flow_control_monitor 4, [Wakeup])" by blast
  from wait_ready_contract [of four_sent "[Wakeup, Interruption_request]"] n q
  have 2: "check_fc_condition four_sent [Wakeup, Interruption_request] = Inr (False, four_sent, [])"
    by blast
  from wait_ready_contract [of four_sent "[Wakeup, Interruption_request]"
      "[Wakeup, Interruption_request]" four_sent 2 "[Wakeup]"] 2 u
  have 3: "check_fc_condition four_sent [Wakeup, Interruption_request, Other_update 2, Wakeup, Wakeup] =
       Inr (True, update_fc_condition four_sent 2, [Wakeup])" by simp
  from 1 2 3 show ?thesis by blast
qed

text \<open>
  C9 as stated fails: a cancellation request during the wait does not make the call
  return "not ready". With four numbers out and a window of 4, a request followed by the
  acknowledgement of 1 and a wake returns true.
\<close>

theorem cancellation_not_ready_counterexample:
  "returned (check_fc_condition four_sent [Interruption_request, Other_update 1, Wakeup])
     = Some (True, update_fc_condition four_sent 1)"
  by (simp add: check_fc_condition_def timed_wait_def ready_def four_sent_eq
      update_fc_condition_def)

text \<open>
  C2 (amended). Window 4, four sequence numbers taken, nothing acknowledged while
  waiting: \<open>check_fc_condition\<close> returns false. After \<open>update_fc_condition 0\<close> it still
  returns false: the acknowledgement is what \<open>clear\<close> had set, and the difference is
  still 4. After \<open>update_fc_condition 1\<close> it returns true at once.
\<close>

theorem window4_scenario:
  "no_updates evs \<Longrightarrow>
     check_fc_condition four_sent evs = Inr (False, four_sent, [])
     \<and> check_fc_condition (update_fc_condition four_sent 0) evs =
         Inr (False, update_fc_condition four_sent 0, [])
     \<and> check_fc_condition (update_fc_condition four_sent 1) evs =
         Inr (True, update_fc_condition four_sent 1, evs)"
proof -
  assume q: "no_updates evs"
  have a: "\<not> ready four_sent" by (simp add: ready_def four_sent_eq)
  have b: "\<not> ready (update_fc_condition four_sent 0)"
    by (simp add: ready_def four_sent_eq update_fc_condition_def)
  have c: "ready (update_fc_condition four_sent 1)"
    by (simp add: ready_def four_sent_eq update_fc_condition_def)
  from a b c q show ?thesis
    by (simp add: check_fc_condition_def timed_wait_def wait_loop_no_updates)
qed

text \<open>The scenario with one spurious wake before the timeout.\<close>

theorem window4_scenario_witness:
  "no_updates [Wakeup]
   \<and> check_fc_condition four_sent [Wakeup] = Inr (False, four_sent, [])
   \<and> check_fc_condition (update_fc_condition four_sent 0) [Wakeup] =
         Inr (False, update_fc_condition four_sent 0, [])
   \<and> check_fc_condition (update_fc_condition four_sent 1) [Wakeup] =
         Inr (True, update_fc_condition four_sent 1, [Wakeup])"
proof -
  have q: "no_updates [Wakeup]" by simp
  from window4_scenario [OF q] q show ?thesis by simp
qed

text \<open>
  C2 as stated fails: with no event before the timeout, the wait after four sequence
  numbers returns false, and the wait after \<open>update_fc_condition 0\<close> does not return
  true.
\<close>

theorem window4_ack0_counterexample:
  "\<not> (returned (check_fc_condition four_sent []) = Some (False, four_sent)
      \<and> fst (the (returned (check_fc_condition (update_fc_condition four_sent 0) []))) = True)"
  by (simp add: check_fc_condition_def timed_wait_def ready_def four_sent_eq
      update_fc_condition_def)

section \<open>Properties of the async message queue\<close>

lemma buffer_push:
  "buffer (push_with_pop_on_full q e) =
     (if capacity q \<le> length (buffer q) then tl (buffer q) else buffer q) @ [e]"
  by (simp add: push_with_pop_on_full_def full_def)

lemma capacity_push: "capacity (push_with_pop_on_full q e) = capacity q"
  by (simp add: push_with_pop_on_full_def)

lemma foldl_push_buffer:
  "0 < n \<Longrightarrow>
     buffer (foldl push_with_pop_on_full (make_bounded_buffer n) es) = drop (length es - n) es
     \<and> capacity (foldl push_with_pop_on_full (make_bounded_buffer n) es) = n"
proof (induction es rule: rev_induct)
  case Nil
  then show ?case by (simp add: make_bounded_buffer_def)
next
  case (snoc e es)
  then have ih: "buffer (foldl push_with_pop_on_full (make_bounded_buffer n) es) = drop (length es - n) es"
    and c: "capacity (foldl push_with_pop_on_full (make_bounded_buffer n) es) = n" by simp_all
  show ?case
  proof (cases "n \<le> length es")
    case True
    then have "tl (drop (length es - n) es) = drop (Suc (length es) - n) es"
      by (simp add: drop_Suc [symmetric] tl_drop Suc_diff_le)
    with True ih c snoc.prems show ?thesis
      by (simp add: buffer_push capacity_push)
  next
    case False
    with ih c show ?thesis
      by (simp add: buffer_push capacity_push)
  qed
qed

text \<open>
  C3. The queue of the io implementation is made empty with capacity 100. A push never
  fails (it is a total function to the new queue) and keeps the capacity; on a queue
  within its capacity the result is within the capacity and holds the old entries in
  order, less the oldest one if the queue was full, followed by the pushed entry. After
  any pushes into an empty queue of capacity \<open>n > 0\<close> the queue holds the last \<open>n\<close>
  pushed entries in order. With capacity 2, pushing a, b, c leaves [b, c].
\<close>

theorem async_queue_drop_oldest:
  "capacity (async_msg_fifo make_io_impl) = 100 \<and> buffer (async_msg_fifo make_io_impl) = []
   \<and> (0 < capacity q \<and> length (buffer q) \<le> capacity q \<longrightarrow>
        capacity (push_with_pop_on_full q e) = capacity q
        \<and> length (buffer (push_with_pop_on_full q e)) \<le> capacity q
        \<and> buffer (push_with_pop_on_full q e) =
            (if length (buffer q) = capacity q then tl (buffer q) else buffer q) @ [e :: 'a])
   \<and> (0 < n \<longrightarrow>
        buffer (foldl push_with_pop_on_full (make_bounded_buffer n) es) = drop (length es - n) (es :: 'a list)
        \<and> length (buffer (foldl push_with_pop_on_full (make_bounded_buffer n) es)) \<le> n)
   \<and> buffer (foldl push_with_pop_on_full (make_bounded_buffer 2) [a, b, c :: 'a]) = [b, c]"
proof -
  have 1: "capacity (async_msg_fifo make_io_impl) = 100 \<and> buffer (async_msg_fifo make_io_impl) = []"
    by (simp add: make_io_impl_def make_bounded_buffer_def)
  have 2: "0 < capacity q \<and> length (buffer q) \<le> capacity q \<longrightarrow>
        capacity (push_with_pop_on_full q e) = capacity q
        \<and> length (buffer (push_with_pop_on_full q e)) \<le> capacity q
        \<and> buffer (push_with_pop_on_full q e) =
            (if length (buffer q) = capacity q then tl (buffer q) else buffer q) @ [e]"
    by (auto simp: buffer_push capacity_push)
  have 3: "0 < n \<longrightarrow>
        buffer (foldl push_with_pop_on_full (make_bounded_buffer n) es) = drop (length es - n) es
        \<and> length (buffer (foldl push_with_pop_on_full (make_bounded_buffer n) es)) \<le> n"
    using foldl_push_buffer [of n es] by auto
  have 4: "buffer (foldl push_with_pop_on_full (make_bounded_buffer 2) [a, b, c]) = [b, c]"
    by (simp add: push_with_pop_on_full_def full_def make_bounded_buffer_def)
  from 1 2 3 4 show ?thesis by blast
qed

text \<open>A full queue of capacity 2 holding 5, 6; and four pushes into an empty one.\<close>

theorem async_queue_drop_oldest_witness:
  "buffer (push_with_pop_on_full \<lparr>capacity = 2, buffer = [5, 6 :: nat]\<rparr> 7) = [6, 7]
   \<and> length (buffer (push_with_pop_on_full \<lparr>capacity = 2, buffer = [5, 6 :: nat]\<rparr> 7)) \<le> 2
   \<and> buffer (foldl push_with_pop_on_full (make_bounded_buffer 2) [5, 6, 7, 8 :: nat]) = [7, 8]"
proof -
  have h: "0 < capacity \<lparr>capacity = 2, buffer = [5, 6 :: nat]\<rparr>
      \<and> length (buffer \<lparr>capacity = 2, buffer = [5, 6 :: nat]\<rparr>) \<le> capacity \<lparr>capacity = 2, buffer = [5, 6 :: nat]\<rparr>"
    by simp
  have n: "0 < (2 :: nat)" by simp
  from async_queue_drop_oldest [of "\<lparr>capacity = 2, buffer = [5, 6 :: nat]\<rparr>" 7 2 "[5, 6, 7, 8 :: nat]" 5 6 7] h n
  show ?thesis by simp
qed

section \<open>Properties of the io implementation\<close>

subsection \<open>Acquiring a send buffer\<close>

lemma wait_loop_keeps_out:
  "timed_wait_loop False pred m evs = Inr (b, m', rest) \<Longrightarrow>
     last_seq_out m' = last_seq_out m \<and> max_seqs_out m' = max_seqs_out m"
proof (induction evs arbitrary: m)
  case Nil
  then show ?case by simp
next
  case (Cons e evs)
  show ?case
  proof (cases e)
    case (Other_update seq)
    with Cons.prems have "timed_wait_loop False pred (update_fc_condition m seq) evs = Inr (b, m', rest)"
      by simp
    from Cons.IH [OF this] show ?thesis by (simp add: update_fc_condition_def)
  next
    case Wakeup
    with Cons show ?thesis by (auto split: if_splits)
  next
    case Interruption_request
    with Cons show ?thesis by simp
  qed
qed

lemma check_keeps_out:
  "check_fc_condition m evs = Inr (b, m', rest) \<Longrightarrow>
     last_seq_out m' = last_seq_out m \<and> max_seqs_out m' = max_seqs_out m"
  using wait_loop_keeps_out [of ready m evs b m' rest]
  by (auto simp: check_fc_condition_def timed_wait_def split: if_splits)

text \<open>
  C10. For a channel the io implementation has, \<open>get_send_buff\<close> returns (it does not
  throw). It hands back no buffer exactly when the flow control wait returned false or
  the transport returned no buffer, and then the channel's \<open>last_seq_out\<close> is what it
  was. When it hands back a buffer, the first 32-bit word of the buffer is \<open>htonx\<close> of
  the former \<open>last_seq_out\<close>, and \<open>last_seq_out\<close> has advanced by one.
\<close>

theorem failed_acquisition_keeps_sequence:
  assumes "chan < length (fc_mons io_st)" and "chan < length (tx_xports io_st)"
  shows "\<exists>res io' ok fc_mon rest.
      get_send_buff env io_st chan evs xport_buff = Inr (res, io')
    \<and> check_fc_condition (fc_mons io_st ! chan) evs = Inr (ok, fc_mon, rest)
    \<and> (res = None \<longleftrightarrow> \<not> ok \<or> xport_buff = None)
    \<and> length (fc_mons io') = length (fc_mons io_st)
    \<and> (case res of
          None \<Rightarrow> last_seq_out (fc_mons io' ! chan) = last_seq_out (fc_mons io_st ! chan)
        | Some buff \<Rightarrow>
            buff_words buff 0 = htonx env (last_seq_out (fc_mons io_st ! chan))
            \<and> last_seq_out (fc_mons io' ! chan) = last_seq_out (fc_mons io_st ! chan) + 1)"
proof -
  obtain ok fc_mon pre rest where
    c: "check_fc_condition (fc_mons io_st ! chan) evs = Inr (ok, fc_mon, rest)"
    using check_returns [of "fc_mons io_st ! chan" evs] by blast
  from check_keeps_out [OF c] have k: "last_seq_out fc_mon = last_seq_out (fc_mons io_st ! chan)"
    by simp
  show ?thesis
  proof (cases "ok \<and> xport_buff \<noteq> None")
    case False
    with assms c k show ?thesis
      by (auto simp: get_send_buff_def Let_def split: option.splits)
  next
    case True
    then obtain buff where b: "xport_buff = Some buff" and ok by auto
    with assms c k show ?thesis
      by (auto simp: get_send_buff_def get_curr_seq_out_def Let_def)
  qed
qed


text \<open>The concrete io implementation, evaluated.\<close>

lemma busy_io_simps:
  "fc_mons busy_io = [\<lparr>last_seq_out = 4, last_seq_ack = 0, max_seqs_out = 4\<rparr>,
                      \<lparr>last_seq_out = 4, last_seq_ack = 2, max_seqs_out = 4\<rparr>]"
  "tx_xports busy_io = [0, 1]"
  "async_msg_fifo busy_io = \<lparr>capacity = 100, buffer = []\<rparr>"
  by (simp_all add: busy_io_def make_io_impl_def four_sent_eq update_fc_condition_def
      make_bounded_buffer_def)

text \<open>
  A flow control timeout on channel 0, a transport timeout on channel 1, and a buffer
  obtained on channel 1, which gets sequence number 4.
\<close>

theorem failed_acquisition_keeps_sequence_witness:
  "(\<exists>io'. get_send_buff example_env busy_io 0 [Wakeup] (Some (status_packet 0 0 0)) = Inr (None, io')
        \<and> last_seq_out (fc_mons io' ! 0) = 4)
   \<and> (\<exists>io'. get_send_buff example_env busy_io 1 [] None = Inr (None, io')
        \<and> last_seq_out (fc_mons io' ! 1) = 4)
   \<and> (\<exists>buff io'. get_send_buff example_env busy_io 1 [] (Some (status_packet 0 0 0)) = Inr (Some buff, io')
        \<and> buff_words buff 0 = 4 \<and> last_seq_out (fc_mons io' ! 1) = 5)"
proof -
  have r0: "check_fc_condition (fc_mons busy_io ! 0) [Wakeup] =
      Inr (False, fc_mons busy_io ! 0, [])"
    by (simp add: busy_io_simps check_fc_condition_def timed_wait_def ready_def)
  have r1: "check_fc_condition (fc_mons busy_io ! 1) [] = Inr (True, fc_mons busy_io ! 1, [])"
    by (simp add: busy_io_simps check_fc_condition_def timed_wait_def ready_def)
  have h: "htonx example_env 4 = 4" by (simp add: example_env_def)
  have l0: "0 < length (fc_mons busy_io)" "0 < length (tx_xports busy_io)"
    by (simp_all add: busy_io_simps)
  have l1: "1 < length (fc_mons busy_io)" "1 < length (tx_xports busy_io)"
    by (simp_all add: busy_io_simps)
  from failed_acquisition_keeps_sequence [OF l0, of example_env "[Wakeup]" "Some (status_packet 0 0 0)"] r0
  have a: "\<exists>io'. get_send_buff example_env busy_io 0 [Wakeup] (Some (status_packet 0 0 0)) = Inr (None, io')
        \<and> last_seq_out (fc_mons io' ! 0) = 4"
    by (auto simp: busy_io_simps)
  from failed_acquisition_keeps_sequence [OF l1, of example_env "[]" None] r1
  have b: "\<exists>io'. get_send_buff example_env busy_io 1 [] None = Inr (None, io')
        \<and> last_seq_out (fc_mons io' ! 1) = 4"
    by (auto simp: busy_io_simps)
  from failed_acquisition_keeps_sequence [OF l1, of example_env "[]" "Some (status_packet 0 0 0)"] r1 h
  have c: "\<exists>buff io'. get_send_buff example_env busy_io 1 [] (Some (status_packet 0 0 0)) = Inr (Some buff, io')
        \<and> buff_words buff 0 = 4 \<and> last_seq_out (fc_mons io' ! 1) = 5"
    by (auto simp: busy_io_simps split: option.splits)
  from a b c show ?thesis by blast
qed

subsection \<open>The receive pirate loop\<close>



section \<open>Properties of the streamers\<close>

subsection \<open>The transmit wire format\<close>

text \<open>
  C6. \<open>get_tx_stream\<close> with a wire format that is neither empty nor \<open>sc16\<close> ends with
  the \<open>value_error\<close> of line 479 and the device exactly as it was: no streamer exists,
  no DSP, streamer slot or flow control monitor was touched. An empty format is the
  same request as \<open>sc16\<close>.
\<close>

theorem tx_wire_format_rejected:
  "(otw_format a \<noteq> [] \<and> otw_format a \<noteq> ''sc16'' \<longrightarrow>
      get_tx_stream env dev my_streamer a =
        (Inl (value_error (''USRP TX cannot handle requested wire format: '' @ otw_format a)), dev))
   \<and> get_tx_stream env dev my_streamer (a\<lparr>otw_format := []\<rparr>) =
       get_tx_stream env dev my_streamer (a\<lparr>otw_format := ''sc16''\<rparr>)"
proof
  show "otw_format a \<noteq> [] \<and> otw_format a \<noteq> ''sc16'' \<longrightarrow>
      get_tx_stream env dev my_streamer a =
        (Inl (value_error (''USRP TX cannot handle requested wire format: '' @ otw_format a)), dev)"
    by (simp add: get_tx_stream_def Let_def)
next
  let ?e = "a\<lparr>otw_format := []\<rparr>" and ?s = "a\<lparr>otw_format := ''sc16''\<rparr>"
  have d: "?e\<lparr>otw_format := (if otw_format ?e = [] then ''sc16'' else otw_format ?e),
               channels := (if channels ?e = [] then [0] else channels ?e)\<rparr>
         = ?s\<lparr>otw_format := (if otw_format ?s = [] then ''sc16'' else otw_format ?s),
               channels := (if channels ?s = [] then [0] else channels ?s)\<rparr>"
    by simp
  show "get_tx_stream env dev my_streamer ?e = get_tx_stream env dev my_streamer ?s"
    unfolding get_tx_stream_def d by (rule refl)
qed

text \<open>A transmit streamer asked for with the wire format \<open>sc8\<close>.\<close>

theorem tx_wire_format_rejected_witness:
  "get_tx_stream example_env two_boards 7 (example_args ''sc8'' [0]) =
     (Inl (value_error ''USRP TX cannot handle requested wire format: sc8''), two_boards)"
proof -
  have h: "otw_format (example_args ''sc8'' [0]) \<noteq> [] \<and> otw_format (example_args ''sc8'' [0]) \<noteq> ''sc16''"
    by (simp add: example_args_def)
  have o: "otw_format (example_args ''sc8'' [0]) = ''sc8''" by (simp add: example_args_def)
  from tx_wire_format_rejected [of "example_args ''sc8'' [0]" example_env two_boards 7] h
  show ?thesis by (simp add: o)
qed

subsection \<open>Channels that no board holds\<close>



























subsection \<open>Channels that a board holds\<close>




text \<open>
  The transmit walk resolves a channel the same way; the channel number bound into
  \<open>get_send_buff\<close>, whose flow control monitor is cleared, is two per board before
  plus the DSP.
\<close>

lemma tx_bind_chan_resolved:
  assumes "num_chan_so_far + sum_list (map tx_chan_occ pre) \<le> chan"
    and "chan < num_chan_so_far + sum_list (map tx_chan_occ pre) + tx_chan_occ mb"
    and "tx_chan_occ mb \<le> length (tx_dsps mb)" and "tx_chan_occ mb \<le> length (tx_streamers mb)"
    and "abs_chan + 2 * length pre + tx_chan_occ mb \<le> length fcs"
  shows "tx_bind_chan a my_streamer chan_i chan abs_chan num_chan_so_far (pre @ mb # post) fcs st =
     (let dsp = chan - (num_chan_so_far + sum_list (map tx_chan_occ pre));
          fc = abs_chan + 2 * length pre + dsp in
      (None,
       pre @ mb\<lparr>tx_dsps := (tx_dsps mb)[dsp := tx_dsps mb ! dsp
                   @ (if \<not> has_key (args a) ''noclear'' then [Tx_clear] else [])
                   @ (if has_key (args a) ''underflow_policy''
                      then [Set_underflow_policy (the (map_of (args a) ''underflow_policy''))]
                      else [])],
              tx_streamers := (tx_streamers mb)[dsp := Some my_streamer]\<rparr> # post,
       (if \<not> has_key (args a) ''noclear'' then fcs[fc := clear (fcs ! fc)] else fcs),
       st\<lparr>tx_xport_chans := (tx_xport_chans st)[chan_i := Some fc]\<rparr>))"
  using assms
proof (induction pre arbitrary: abs_chan num_chan_so_far)
  case Nil
  then have "chan - num_chan_so_far < length (tx_dsps mb)"
    and "chan - num_chan_so_far < length (tx_streamers mb)"
    and "abs_chan + (chan - num_chan_so_far) < length fcs" by auto
  with Nil show ?case by (simp add: Let_def)
next
  case (Cons p pre)
  have a1: "(num_chan_so_far + tx_chan_occ p) + sum_list (map tx_chan_occ pre) \<le> chan"
    using Cons.prems(1) by simp
  have a2: "chan < (num_chan_so_far + tx_chan_occ p) + sum_list (map tx_chan_occ pre) + tx_chan_occ mb"
    using Cons.prems(2) by simp
  have a5: "(abs_chan + 2) + 2 * length pre + tx_chan_occ mb \<le> length fcs"
    using Cons.prems(5) by simp
  have n: "\<not> chan < num_chan_so_far + tx_chan_occ p" using a1 by simp
  from Cons.IH [OF a1 a2 Cons.prems(3) Cons.prems(4) a5] n
  show ?case by (simp add: Let_def add.assoc)
qed

end
